theory Spec2Isabelle
  imports Complex_Main
begin

section \<open>Numbers and vectors\<close>

text \<open>
  The script computes with Python floats and with \<^verbatim>\<open>mathutils.Vector\<close> values. Both are
  modelled over the real numbers: every float is the real it denotes and every operation is
  exact. Rounding, overflow, infinities and NaN are outside the model; the one infinity the
  script writes itself (\<^verbatim>\<open>float('inf')\<close> in \<^verbatim>\<open>interpolate_field\<close>) is a constructor of
  its own.

  \<^verbatim>\<open>mathutils\<close> is a library of the host application. Its operations are modelled from
  their documentation: componentwise sum, difference and scaling, \<^verbatim>\<open>length_squared\<close> as
  the sum of the squared components, and \<^verbatim>\<open>normalized()\<close>, which returns the unit vector
  of a vector and leaves a vector of length zero as it is (all components zero).
\<close>

datatype vec = Vector (vx: real) (vy: real) (vz: real)

definition vec_add :: "vec \<Rightarrow> vec \<Rightarrow> vec" where
  "vec_add a b = Vector (vx a + vx b) (vy a + vy b) (vz a + vz b)"

definition vec_sub :: "vec \<Rightarrow> vec \<Rightarrow> vec" where
  "vec_sub a b = Vector (vx a - vx b) (vy a - vy b) (vz a - vz b)"

definition vec_scale :: "vec \<Rightarrow> real \<Rightarrow> vec" where
  "vec_scale a k = Vector (vx a * k) (vy a * k) (vz a * k)"

definition length_squared :: "vec \<Rightarrow> real" where
  "length_squared a = vx a * vx a + vy a * vy a + vz a * vz a"

definition normalized :: "vec \<Rightarrow> vec" where
  "normalized a =
     (let l = sqrt (length_squared a)
      in if l = 0 then Vector 0 0 0 else vec_scale a (1 / l))"

type_synonym rgba = "real \<times> real \<times> real \<times> real"

section \<open>Color mapper\<close>

text \<open>
  \<^verbatim>\<open>colorsys.hsv_to_rgb\<close> of the Python standard library, as its source reads:
  \<^verbatim>\<open>int()\<close> truncates towards zero, and \<^verbatim>\<open>i % 6\<close> is never negative.
\<close>

definition py_int :: "real \<Rightarrow> int" where
  "py_int x = (if 0 \<le> x then \<lfloor>x\<rfloor> else \<lceil>x\<rceil>)"

definition hsv_to_rgb :: "real \<Rightarrow> real \<Rightarrow> real \<Rightarrow> real \<times> real \<times> real" where
  "hsv_to_rgb h s v =
     (if s = 0 then (v, v, v)
      else
        let i = py_int (h * 6);
            f = h * 6 - real_of_int i;
            p = v * (1 - s);
            q = v * (1 - s * f);
            t = v * (1 - s * (1 - f));
            i = i mod 6
        in if i = 0 then (v, t, p)
           else if i = 1 then (q, v, p)
           else if i = 2 then (p, v, t)
           else if i = 3 then (p, q, v)
           else if i = 4 then (t, p, v)
           else (v, p, q))"

definition magnitude_to_color :: "real \<Rightarrow> real \<Rightarrow> rgba" where
  "magnitude_to_color magnitude max_magnitude =
     (if max_magnitude = 0 then (0.5, 0.5, 0.5, 1.0)
      else
        let t = min 1.0 (magnitude / max_magnitude);
            hue = (1.0 - t) * 0.666
        in case hsv_to_rgb hue 1.0 1.0 of (r, g, b) \<Rightarrow> (r, g, b, 1.0))"

definition direction_to_color :: "vec \<Rightarrow> rgba" where
  "direction_to_color field_vector =
     (let norm = normalized field_vector;
          r = (vx norm + 1) / 2;
          g = (vy norm + 1) / 2;
          b = (vz norm + 1) / 2
      in (r, g, b, 1.0))"

section \<open>Field samples\<close>

text \<open>
  A field point is the dictionary with the keys \<^verbatim>\<open>position\<close>, \<^verbatim>\<open>field\<close> and
  \<^verbatim>\<open>magnitude\<close> that the loaders build. The points that \<^verbatim>\<open>trace_field_line\<close> appends
  carry only \<^verbatim>\<open>position\<close> and \<^verbatim>\<open>magnitude\<close>; the first element of its result is the
  start point itself.
\<close>

record sample =
  position :: vec
  field :: vec
  magnitude :: real

datatype trace_point = Start sample | Step vec real

fun point_position :: "trace_point \<Rightarrow> vec" where
  "point_position (Start s) = position s"
| "point_position (Step p m) = p"

section \<open>Field sampler\<close>

text \<open>
  \<^verbatim>\<open>min_dist\<close> starts as \<^verbatim>\<open>float('inf')\<close>, above every distance; \<^verbatim>\<open>nearest\<close> starts
  as \<^verbatim>\<open>None\<close>. The loop keeps both as it scans the points in order.
\<close>

datatype bound = Infinity | Finite real

fun less_bound :: "real \<Rightarrow> bound \<Rightarrow> bool" where
  "less_bound d Infinity = True"
| "less_bound d (Finite m) = (d < m)"

fun interpolate_loop :: "sample list \<Rightarrow> vec \<Rightarrow> sample option \<Rightarrow> bound \<Rightarrow> sample option" where
  "interpolate_loop [] pos nearest min_dist = nearest"
| "interpolate_loop (point # rest) pos nearest min_dist =
     (let dist = length_squared (vec_sub (position point) pos)
      in if less_bound dist min_dist
         then interpolate_loop rest pos (Some point) (Finite dist)
         else interpolate_loop rest pos nearest min_dist)"

definition interpolate_field :: "sample list \<Rightarrow> vec \<Rightarrow> sample option" where
  "interpolate_field field_points pos = interpolate_loop field_points pos None Infinity"

section \<open>Streamline tracer\<close>

text \<open>
  \<^verbatim>\<open>range(max_steps)\<close> runs \<^verbatim>\<open>max_steps\<close> times, and not at all for a negative
  \<^verbatim>\<open>max_steps\<close>. Each \<^verbatim>\<open>break\<close> leaves the loop with the points collected so far.
\<close>

definition out_of_bounds :: "vec \<Rightarrow> bool" where
  "out_of_bounds p \<longleftrightarrow> \<bar>vx p\<bar> > 2 \<or> \<bar>vy p\<bar> > 2 \<or> \<bar>vz p\<bar> > 2"

fun trace_loop :: "nat \<Rightarrow> sample list \<Rightarrow> real \<Rightarrow> vec \<Rightarrow> trace_point list \<Rightarrow> trace_point list" where
  "trace_loop 0 field_points max_magnitude current_pos points = points"
| "trace_loop (Suc n) field_points max_magnitude current_pos points =
     (case interpolate_field field_points current_pos of
        None \<Rightarrow> points
      | Some fld \<Rightarrow>
          if magnitude fld < max_magnitude * 0.000001 then points
          else
            let direction = normalized (field fld);
                current_pos = vec_add current_pos (vec_scale direction 0.05)
            in if out_of_bounds current_pos then points
               else trace_loop n field_points max_magnitude current_pos
                      (points @ [Step current_pos (magnitude fld)]))"

definition trace_field_line :: "sample list \<Rightarrow> sample \<Rightarrow> real \<Rightarrow> int \<Rightarrow> trace_point list" where
  "trace_field_line field_points start_point max_magnitude max_steps =
     trace_loop (nat max_steps) field_points max_magnitude (position start_point)
       [Start start_point]"


section \<open>Python values and exceptions\<close>

text \<open>
  \<^verbatim>\<open>json.load\<close> yields Python values: dictionaries with string keys, lists, strings,
  numbers, booleans and \<^verbatim>\<open>None\<close>. A dictionary is the list of its items in insertion
  order, with distinct keys. The script reads these values with subscripts, \<^verbatim>\<open>for\<close>
  loops, \<^verbatim>\<open>in\<close> and \<^verbatim>\<open>get\<close>, each of which raises on a value of the wrong kind; an
  exception is the left summand of the result.
\<close>

datatype pyval =
    PNone
  | PBool bool
  | PNum real
  | PStr string
  | PList "pyval list"
  | PDict "(string \<times> pyval) list"

datatype exn =
    KeyError string
  | TypeError
  | ValueError
  | ZeroDivisionError
  | AttributeError
  | OSError
  | JSONDecodeError
  | CsvError

definition and_then :: "exn + 'a \<Rightarrow> ('a \<Rightarrow> exn + 'b) \<Rightarrow> exn + 'b" where
  "and_then r f = (case r of Inl e \<Rightarrow> Inl e | Inr v \<Rightarrow> f v)"

fun getitem :: "pyval \<Rightarrow> string \<Rightarrow> exn + pyval" where
  "getitem (PDict items) key =
     (case map_of items key of None \<Rightarrow> Inl (KeyError key) | Some v \<Rightarrow> Inr v)"
| "getitem v key = Inl TypeError"

fun py_iter :: "pyval \<Rightarrow> exn + pyval list" where
  "py_iter (PList xs) = Inr xs"
| "py_iter (PDict items) = Inr (map (\<lambda>(k, v). PStr k) items)"
| "py_iter (PStr s) = Inr (map (\<lambda>c. PStr [c]) s)"
| "py_iter v = Inl TypeError"

fun contains_key :: "pyval \<Rightarrow> string \<Rightarrow> exn + bool" where
  "contains_key (PDict items) key = Inr (map_of items key \<noteq> None)"
| "contains_key (PList xs) key = Inr (PStr key \<in> set xs)"
| "contains_key (PStr s) key =
     Inr (list_ex (\<lambda>i. take (length key) (drop i s) = key) [0..<Suc (length s)])"
| "contains_key v key = Inl TypeError"

fun dict_get :: "pyval \<Rightarrow> string \<Rightarrow> pyval \<Rightarrow> exn + pyval" where
  "dict_get (PDict items) key dflt =
     (case map_of items key of None \<Rightarrow> Inr dflt | Some v \<Rightarrow> Inr v)"
| "dict_get v key dflt = Inl AttributeError"

text \<open>
  A number where the host expects a float: \<^verbatim>\<open>Vector\<close> and the operators convert each
  component, taking a boolean as 0 or 1 and raising \<^verbatim>\<open>TypeError\<close> on anything else.
\<close>

fun as_number :: "pyval \<Rightarrow> real option" where
  "as_number (PNum r) = Some r"
| "as_number (PBool b) = Some (if b then 1 else 0)"
| "as_number v = None"

definition to_float :: "pyval \<Rightarrow> exn + real" where
  "to_float v = (case as_number v of None \<Rightarrow> Inl TypeError | Some r \<Rightarrow> Inr r)"

fun is_str :: "pyval \<Rightarrow> bool" where
  "is_str (PStr s) = True"
| "is_str v = False"

section \<open>Field dataset loader\<close>

text \<open>
  The JSON loader stores \<^verbatim>\<open>point['magnitude']\<close> as it finds it, so a loaded field
  point carries a Python value there; positions and field vectors go through
  \<^verbatim>\<open>Vector\<close>. A source keeps \<^verbatim>\<open>radius\<close> and \<^verbatim>\<open>current\<close> as found or defaulted.
\<close>

record field_point =
  fp_position :: vec
  fp_field :: vec
  fp_magnitude :: pyval

record source =
  src_position :: vec
  radius :: pyval
  current :: pyval

definition make_vector :: "pyval \<Rightarrow> pyval \<Rightarrow> pyval \<Rightarrow> exn + vec" where
  "make_vector x y z =
     and_then (to_float x) (\<lambda>x.
     and_then (to_float y) (\<lambda>y.
     and_then (to_float z) (\<lambda>z. Inr (Vector x y z))))"

definition point_vector :: "pyval \<Rightarrow> string \<Rightarrow> exn + vec" where
  "point_vector point key =
     and_then (and_then (getitem point key) (\<lambda>d. getitem d ''x'')) (\<lambda>x.
     and_then (and_then (getitem point key) (\<lambda>d. getitem d ''y'')) (\<lambda>y.
     and_then (and_then (getitem point key) (\<lambda>d. getitem d ''z'')) (\<lambda>z.
     make_vector x y z)))"

definition load_point :: "pyval \<Rightarrow> exn + field_point" where
  "load_point point =
     and_then (point_vector point ''position'') (\<lambda>p.
     and_then (point_vector point ''field'') (\<lambda>f.
     and_then (getitem point ''magnitude'') (\<lambda>m.
     Inr \<lparr>fp_position = p, fp_field = f, fp_magnitude = m\<rparr>)))"

fun load_points :: "pyval list \<Rightarrow> field_point list \<Rightarrow> exn + field_point list" where
  "load_points [] field_points = Inr field_points"
| "load_points (point # rest) field_points =
     and_then (load_point point) (\<lambda>p. load_points rest (field_points @ [p]))"

definition load_source :: "pyval \<Rightarrow> exn + source" where
  "load_source src =
     and_then (and_then (getitem src ''position'') (\<lambda>p. getitem p ''alt'')) (\<lambda>alt.
     and_then (make_vector (PNum 0) (PNum 0) alt) (\<lambda>p.
     and_then (dict_get src ''radius'' (PNum 0.01)) (\<lambda>r.
     and_then (dict_get src ''current'' (PNum 0)) (\<lambda>c.
     Inr \<lparr>src_position = p, radius = r, current = c\<rparr>))))"

fun load_sources :: "pyval list \<Rightarrow> source list \<Rightarrow> exn + source list" where
  "load_sources [] sources = Inr sources"
| "load_sources (src # rest) sources =
     and_then (load_source src) (\<lambda>s. load_sources rest (sources @ [s]))"

text \<open>
  The loader proper, on the value that \<^verbatim>\<open>json.load\<close> returned: the field points first,
  then the sources when the key is there, then the metadata.
\<close>

definition load_json_data :: "pyval \<Rightarrow> exn + field_point list \<times> source list \<times> pyval" where
  "load_json_data data =
     and_then (getitem data ''field'') (\<lambda>fld.
     and_then (py_iter fld) (\<lambda>points.
     and_then (load_points points []) (\<lambda>field_points.
     and_then (contains_key data ''sources'') (\<lambda>has_sources.
     and_then (if has_sources
               then and_then (getitem data ''sources'') (\<lambda>srcs.
                    and_then (py_iter srcs) (\<lambda>srcs. load_sources srcs []))
               else Inr []) (\<lambda>sources.
     and_then (dict_get data ''metadata'' (PDict [])) (\<lambda>metadata.
     Inr (field_points, sources, metadata)))))))"

text \<open>
  A CSV file as \<^verbatim>\<open>csv.DictReader\<close> hands it over: one dictionary per row, from column
  name to cell. A cell is given by what \<^verbatim>\<open>float\<close> makes of it: a number, a
  \<^verbatim>\<open>ValueError\<close> for text that is no number, a \<^verbatim>\<open>TypeError\<close> for the \<^verbatim>\<open>None\<close> that
  fills a short row.
\<close>

datatype cell = Parses real | Unparsable | Missing

type_synonym csv_row = "(string \<times> cell) list"

fun py_float :: "cell \<Rightarrow> exn + real" where
  "py_float (Parses r) = Inr r"
| "py_float Unparsable = Inl ValueError"
| "py_float Missing = Inl TypeError"

definition row_float :: "csv_row \<Rightarrow> string \<Rightarrow> exn + real" where
  "row_float row key =
     (case map_of row key of None \<Rightarrow> Inl (KeyError key) | Some c \<Rightarrow> py_float c)"

definition load_row :: "csv_row \<Rightarrow> exn + field_point" where
  "load_row row =
     and_then (row_float row ''x'') (\<lambda>x.
     and_then (row_float row ''y'') (\<lambda>y.
     and_then (row_float row ''z'') (\<lambda>z.
     and_then (row_float row ''Bx'') (\<lambda>Bx.
     and_then (row_float row ''By'') (\<lambda>By.
     and_then (row_float row ''Bz'') (\<lambda>Bz.
     and_then (row_float row ''magnitude'') (\<lambda>mag.
     Inr \<lparr>fp_position = Vector x y z, fp_field = Vector Bx By Bz,
          fp_magnitude = PNum mag\<rparr>)))))))"

fun load_rows :: "csv_row list \<Rightarrow> field_point list \<Rightarrow> exn + field_point list" where
  "load_rows [] field_points = Inr field_points"
| "load_rows (row # rest) field_points =
     and_then (load_row row) (\<lambda>p. load_rows rest (field_points @ [p]))"

text \<open>
  The files themselves are the environment of a run: what \<^verbatim>\<open>open\<close> followed by
  \<^verbatim>\<open>json.load\<close>, and \<^verbatim>\<open>open\<close> followed by \<^verbatim>\<open>csv.DictReader\<close>, deliver for a path,
  or the exception they raise.
\<close>

record env =
  read_json :: "string \<Rightarrow> exn + pyval"
  read_csv :: "string \<Rightarrow> exn + csv_row list"

definition load_field_data_json ::
  "env \<Rightarrow> string \<Rightarrow> exn + field_point list \<times> source list \<times> pyval" where
  "load_field_data_json e filepath = and_then (read_json e filepath) load_json_data"

definition load_field_data_csv ::
  "env \<Rightarrow> string \<Rightarrow> exn + field_point list \<times> source list \<times> pyval" where
  "load_field_data_csv e filepath =
     and_then (read_csv e filepath) (\<lambda>rows.
     and_then (load_rows rows []) (\<lambda>field_points.
     Inr (field_points, [], PDict [])))"

section \<open>The host scene\<close>

text \<open>
  The script acts on the scene of the host application through its operators and data
  interface. The scene is tracked as far as the script's own statements determine it: the
  objects in the scene with their selection state, the collections with the objects linked
  to them (the newest collection first), the materials, the scene camera and the world
  colour. An object the script builds is recorded with the values the script computes for
  it; the number in \<open>Arrow i\<close>, \<open>Streamline i\<close> and \<open>Source_torus i\<close> is the one in the
  name the script gives the object. Every object is taken to be selectable, the operators
  are taken to succeed, and an object added through an operator becomes the only selected
  one. What the script prints is kept as a list of messages.
\<close>

datatype scene_object =
    Existing string
  | Arrow nat vec vec real
  | Streamline nat "vec list"
  | Source_torus nat vec real real
  | Camera vec
  | Sun vec

datatype material =
    Arrow_material nat rgba
  | Streamline_material nat rgba
  | Source_material nat

record scene =
  objects :: "(scene_object \<times> bool) list"
  collections :: "(string \<times> scene_object list) list"
  materials :: "material list"
  camera :: "scene_object option"
  world_color :: rgba

datatype message =
    Rule
  | Title
  | Loading_data_from string
  | Error_file_type
  | Loaded_field_points nat
  | Loaded_sources nat
  | Max_field_magnitude real
  | Unknown_visualization_mode string
  | Creating_arrows nat
  | Progress nat nat
  | Arrows_created
  | Creating_streamlines nat
  | Created_streamlines nat
  | Creating_sources nat
  | Import_complete
  | Visualization_mode string
  | Tip_rendered
  | Tip_shading

record host =
  printed :: "message list"
  scene :: scene

definition py_print :: "message \<Rightarrow> host \<Rightarrow> host" where
  "py_print m h = h\<lparr>printed := printed h @ [m]\<rparr>"

definition select_all :: "scene \<Rightarrow> scene" where
  "select_all sc = sc\<lparr>objects := map (\<lambda>(ob, sel). (ob, True)) (objects sc)\<rparr>"

definition object_delete :: "scene \<Rightarrow> scene" where
  "object_delete sc =
     (let gone = map fst (filter snd (objects sc))
      in sc\<lparr>objects := filter (\<lambda>(ob, sel). \<not> sel) (objects sc),
            collections :=
              map (\<lambda>(name, members). (name, filter (\<lambda>ob. ob \<notin> set gone) members))
                (collections sc),
            camera :=
              (case camera sc of
                 None \<Rightarrow> None
               | Some c \<Rightarrow> if c \<in> set gone then None else Some c)\<rparr>)"

definition clear_scene :: "host \<Rightarrow> host" where
  "clear_scene h = h\<lparr>scene := object_delete (select_all (scene h))\<rparr>"

definition add_active :: "scene_object \<Rightarrow> scene \<Rightarrow> scene" where
  "add_active ob sc =
     sc\<lparr>objects := map (\<lambda>(other, sel). (other, False)) (objects sc) @ [(ob, True)]\<rparr>"

definition collection_new :: "string \<Rightarrow> scene \<Rightarrow> scene" where
  "collection_new name sc = sc\<lparr>collections := (name, []) # collections sc\<rparr>"

definition collection_link :: "scene_object \<Rightarrow> scene \<Rightarrow> scene" where
  "collection_link ob sc =
     (case collections sc of
        [] \<Rightarrow> sc
      | (name, members) # rest \<Rightarrow> sc\<lparr>collections := (name, members @ [ob]) # rest\<rparr>)"

definition material_new :: "material \<Rightarrow> scene \<Rightarrow> scene" where
  "material_new m sc = sc\<lparr>materials := materials sc @ [m]\<rparr>"

section \<open>Configuration\<close>

record config =
  FILE_PATH :: string
  VISUALIZATION_MODE :: string
  ARROW_SCALE :: real
  ARROW_COLOR_MODE :: string
  SHOW_SOURCES :: bool
  PARTICLE_COUNT :: int
  CURVE_STEPS :: int

definition default_config :: config where
  "default_config =
     \<lparr>FILE_PATH = ''/path/to/magnetic_field_export.json'',
      VISUALIZATION_MODE = ''arrows'',
      ARROW_SCALE = 1.0,
      ARROW_COLOR_MODE = ''magnitude'',
      SHOW_SOURCES = True,
      PARTICLE_COUNT = 1000,
      CURVE_STEPS = 50\<rparr>"

section \<open>Visualization builders\<close>

text \<open>
  A builder returns the exception it raised, if any, and the host as it left it.
  \<^verbatim>\<open>create_arrow_mesh\<close> adds a cone and a cylinder, joins them into one object and gives
  it a material of the colour.
\<close>

definition create_arrow_mesh ::
  "nat \<Rightarrow> vec \<Rightarrow> vec \<Rightarrow> real \<Rightarrow> rgba \<Rightarrow> scene \<Rightarrow> scene_object \<times> scene" where
  "create_arrow_mesh i pos direction arrow_length color sc =
     (let arrow = Arrow i pos direction arrow_length
      in (arrow, material_new (Arrow_material i color) (add_active arrow sc)))"

fun arrows_loop ::
  "config \<Rightarrow> nat \<Rightarrow> real \<Rightarrow> nat \<Rightarrow> sample list \<Rightarrow> host \<Rightarrow> exn option \<times> host" where
  "arrows_loop cfg n_total max_magnitude i [] h = (None, h)"
| "arrows_loop cfg n_total max_magnitude i (point # rest) h =
     (let h = (if i mod 100 = 0 then py_print (Progress i n_total) h else h);
          mag = magnitude point
      in if mag < max_magnitude * 0.000001
         then arrows_loop cfg n_total max_magnitude (Suc i) rest h
         else if max_magnitude = 0 then (Some ZeroDivisionError, h)
         else if mag / max_magnitude + 1 \<le> 0 then (Some ValueError, h)
         else
           let arrow_length = log 10 (mag / max_magnitude + 1) * ARROW_SCALE cfg * 0.3;
               color = (if ARROW_COLOR_MODE cfg = ''magnitude''
                        then magnitude_to_color mag max_magnitude
                        else direction_to_color (field point))
           in case create_arrow_mesh i (position point) (normalized (field point))
                     arrow_length color (scene h) of
                (arrow, sc) \<Rightarrow>
                  arrows_loop cfg n_total max_magnitude (Suc i) rest
                    (h\<lparr>scene := collection_link arrow sc\<rparr>))"

definition visualize_arrows :: "config \<Rightarrow> sample list \<Rightarrow> real \<Rightarrow> host \<Rightarrow> exn option \<times> host" where
  "visualize_arrows cfg field_points max_magnitude h =
     (let h = py_print (Creating_arrows (length field_points)) h;
          h = h\<lparr>scene := collection_new ''Magnetic Field Arrows'' (scene h)\<rparr>
      in case arrows_loop cfg (length field_points) max_magnitude 0 field_points h of
           (Some e, h) \<Rightarrow> (Some e, h)
         | (None, h) \<Rightarrow> (None, py_print Arrows_created h))"

text \<open>
  \<^verbatim>\<open>range(0, len(field_points), step)\<close> visits the indices below the length that are
  multiples of \<open>step\<close>, in order; \<open>start_points\<close> lists the points at these indices.
\<close>

definition start_points :: "nat \<Rightarrow> sample list \<Rightarrow> sample list" where
  "start_points step field_points =
     map snd (filter (\<lambda>(i, p). i mod step = 0) (enumerate 0 field_points))"

fun curves_loop ::
  "config \<Rightarrow> sample list \<Rightarrow> real \<Rightarrow> sample list \<Rightarrow> nat \<Rightarrow> host \<Rightarrow> exn option \<times> nat \<times> host" where
  "curves_loop cfg field_points max_magnitude [] streamline_count h =
     (None, streamline_count, h)"
| "curves_loop cfg field_points max_magnitude (start_point # rest) streamline_count h =
     (if magnitude start_point < max_magnitude * 0.01
      then curves_loop cfg field_points max_magnitude rest streamline_count h
      else
        let points = trace_field_line field_points start_point max_magnitude
                       (CURVE_STEPS cfg)
        in if length points < 2
           then curves_loop cfg field_points max_magnitude rest streamline_count h
           else if max_magnitude = 0 then (Some ZeroDivisionError, streamline_count, h)
           else
             let curve_obj = Streamline streamline_count (map point_position points);
                 color = magnitude_to_color (magnitude start_point) max_magnitude;
                 sc = material_new (Streamline_material streamline_count color) (scene h);
                 sc = sc\<lparr>objects := objects sc @ [(curve_obj, False)]\<rparr>;
                 sc = collection_link curve_obj sc
             in curves_loop cfg field_points max_magnitude rest (streamline_count + 1)
                  (h\<lparr>scene := sc\<rparr>))"

definition visualize_curves :: "config \<Rightarrow> sample list \<Rightarrow> real \<Rightarrow> host \<Rightarrow> exn option \<times> host" where
  "visualize_curves cfg field_points max_magnitude h =
     (let h = py_print (Creating_streamlines (length field_points)) h;
          h = h\<lparr>scene := collection_new ''Magnetic Field Lines'' (scene h)\<rparr>;
          step = max 1 (length field_points div 50)
      in case curves_loop cfg field_points max_magnitude
                (start_points step field_points) 0 h of
           (Some e, n, h) \<Rightarrow> (Some e, h)
         | (None, n, h) \<Rightarrow> (None, py_print (Created_streamlines n) h))"

fun sources_loop :: "nat \<Rightarrow> source list \<Rightarrow> host \<Rightarrow> exn option \<times> host" where
  "sources_loop i [] h = (None, h)"
| "sources_loop i (src # rest) h =
     (case as_number (radius src) of
        None \<Rightarrow> (Some TypeError, h)
      | Some r \<Rightarrow>
          let torus = Source_torus i (src_position src) r (r * 0.1);
              sc = add_active torus (scene h);
              sc = material_new (Source_material i) sc;
              sc = collection_link torus sc
          in sources_loop (Suc i) rest (h\<lparr>scene := sc\<rparr>))"

definition create_sources :: "config \<Rightarrow> source list \<Rightarrow> host \<Rightarrow> exn option \<times> host" where
  "create_sources cfg sources h =
     (if sources = [] \<or> \<not> SHOW_SOURCES cfg then (None, h)
      else
        let h = py_print (Creating_sources (length sources)) h;
            h = h\<lparr>scene := collection_new ''Field Sources'' (scene h)\<rparr>
        in sources_loop 0 sources h)"

definition setup_scene :: "host \<Rightarrow> host" where
  "setup_scene h =
     (let sc = (scene h)\<lparr>world_color := (0.02, 0.02, 0.05, 1.0)\<rparr>;
          sc = add_active (Camera (Vector 3 (- 3) 2)) sc;
          sc = sc\<lparr>camera := Some (Camera (Vector 3 (- 3) 2))\<rparr>;
          sc = add_active (Sun (Vector 5 5 5)) sc
      in h\<lparr>scene := sc\<rparr>)"

section \<open>The entry point\<close>

text \<open>
  The maximum of the magnitudes and the line that prints it with the format
  \<^verbatim>\<open>.6e\<close> are the first statements that need the magnitudes to be numbers. \<^verbatim>\<open>max\<close>
  raises \<^verbatim>\<open>ValueError\<close> on no points at all and \<^verbatim>\<open>TypeError\<close> when it compares values
  of different kinds; the format raises \<^verbatim>\<open>ValueError\<close> on a string and \<^verbatim>\<open>TypeError\<close>
  on any other value that is no number. Past these two lines every magnitude is a number,
  and the points are samples.
\<close>

fun numeric_points :: "field_point list \<Rightarrow> sample list option" where
  "numeric_points [] = Some []"
| "numeric_points (p # rest) =
     (case as_number (fp_magnitude p) of
        None \<Rightarrow> None
      | Some m \<Rightarrow>
          (case numeric_points rest of
             None \<Rightarrow> None
           | Some samples \<Rightarrow>
               Some (\<lparr>position = fp_position p, field = fp_field p, magnitude = m\<rparr>
                     # samples)))"

definition find_max_magnitude :: "field_point list \<Rightarrow> exn + real \<times> sample list" where
  "find_max_magnitude field_points =
     (case numeric_points field_points of
        Some [] \<Rightarrow> Inl ValueError
      | Some (s # rest) \<Rightarrow> Inr (foldl max (magnitude s) (map magnitude rest), s # rest)
      | None \<Rightarrow>
          if list_all (\<lambda>p. is_str (fp_magnitude p)) field_points
          then Inl ValueError else Inl TypeError)"

definition endswith :: "string \<Rightarrow> string \<Rightarrow> bool" where
  "endswith s suffix \<longleftrightarrow>
     length suffix \<le> length s \<and> drop (length s - length suffix) s = suffix"

text \<open>
  \<^verbatim>\<open>main\<close> returns the exception that ended the run, or \<open>None\<close> when it returned, and
  the host as the run left it.
\<close>

definition main :: "config \<Rightarrow> env \<Rightarrow> host \<Rightarrow> exn option \<times> host" where
  "main cfg e h =
     (let h = py_print Rule h;
          h = py_print Title h;
          h = py_print Rule h;
          h = clear_scene h;
          h = py_print (Loading_data_from (FILE_PATH cfg)) h;
          loaded =
            (if endswith (FILE_PATH cfg) ''.json''
             then Some (load_field_data_json e (FILE_PATH cfg))
             else if endswith (FILE_PATH cfg) ''.csv''
             then Some (load_field_data_csv e (FILE_PATH cfg))
             else None)
      in case loaded of
           None \<Rightarrow> (None, py_print Error_file_type h)
         | Some (Inl ex) \<Rightarrow> (Some ex, h)
         | Some (Inr (field_points, sources, metadata)) \<Rightarrow>
             let h = py_print (Loaded_field_points (length field_points)) h;
                 h = py_print (Loaded_sources (length sources)) h
             in case find_max_magnitude field_points of
                  Inl ex \<Rightarrow> (Some ex, h)
                | Inr (max_magnitude, samples) \<Rightarrow>
                    let h = py_print (Max_field_magnitude max_magnitude) h;
                        created =
                          (if VISUALIZATION_MODE cfg = ''arrows''
                           then Some (visualize_arrows cfg samples max_magnitude h)
                           else if VISUALIZATION_MODE cfg = ''curves''
                           then Some (visualize_curves cfg samples max_magnitude h)
                           else None)
                    in case created of
                         None \<Rightarrow>
                           (None,
                            py_print (Unknown_visualization_mode (VISUALIZATION_MODE cfg)) h)
                       | Some (Some ex, h) \<Rightarrow> (Some ex, h)
                       | Some (None, h) \<Rightarrow>
                           (case create_sources cfg sources h of
                              (Some ex, h) \<Rightarrow> (Some ex, h)
                            | (None, h) \<Rightarrow>
                                let h = setup_scene h;
                                    h = py_print Rule h;
                                    h = py_print Import_complete h;
                                    h = py_print Rule h;
                                    h = py_print (Visualization_mode (VISUALIZATION_MODE cfg)) h;
                                    h = py_print Tip_rendered h;
                                    h = py_print Tip_shading h
                                in (None, h)))"

section \<open>The input schema\<close>








section \<open>Example inputs\<close>

text \<open>
  A document with two field entries, an environment that holds it as \<^verbatim>\<open>field.json\<close>
  beside a document with no entries, and a host whose scene has one object.
\<close>

definition example_document :: pyval where
  "example_document =
     PDict [(''field'', PList
       [PDict [(''position'', PDict [(''x'', PNum 0), (''y'', PNum 0), (''z'', PNum 0)]),
               (''field'', PDict [(''x'', PNum 1), (''y'', PNum 0), (''z'', PNum 0)]),
               (''magnitude'', PNum 1)],
        PDict [(''position'', PDict [(''x'', PNum 1), (''y'', PNum 0), (''z'', PNum 0)]),
               (''field'', PDict [(''x'', PNum 0), (''y'', PNum 1), (''z'', PNum 0)]),
               (''magnitude'', PNum 2)]])]"

definition example_env :: env where
  "example_env =
     \<lparr>read_json = (\<lambda>path. if path = ''field.json'' then Inr example_document
                           else if path = ''empty.json'' then Inr (PDict [(''field'', PList [])])
                           else Inl OSError),
      read_csv = (\<lambda>path. Inl OSError)\<rparr>"

definition example_host :: host where
  "example_host =
     \<lparr>printed = [],
      scene = \<lparr>objects = [(Existing ''Cube'', False)],
               collections = [(''Collection'', [Existing ''Cube''])],
               materials = [],
               camera = None,
               world_color = (0.05, 0.05, 0.05, 1)\<rparr>\<rparr>"

section \<open>Nearest-sample lookup\<close>





section \<open>Streamline tracing\<close>

lemma trace_loop_length:
  "length points \<le> length (trace_loop n fps mm cur points) \<and>
   length (trace_loop n fps mm cur points) \<le> length points + n"
proof (induction n arbitrary: cur points)
  case 0
  show ?case by simp
next
  case (Suc n)
  show ?case
  proof (cases "interpolate_field fps cur")
    case None
    then show ?thesis by simp
  next
    case (Some fld)
    let ?next = "vec_add cur (vec_scale (normalized (field fld)) 0.05)"
    let ?pts = "points @ [Step ?next (magnitude fld)]"
    show ?thesis
    proof (cases "magnitude fld < mm * 0.000001 \<or> out_of_bounds ?next")
      case True
      with Some show ?thesis by (auto simp: Let_def)
    next
      case False
      with Some have "trace_loop (Suc n) fps mm cur points = trace_loop n fps mm ?next ?pts"
        by (simp add: Let_def)
      with Suc.IH [of ?pts ?next] show ?thesis by simp
    qed
  qed
qed

text \<open>
  Claim C5. For \<^verbatim>\<open>max_steps\<close> at least 0, \<^verbatim>\<open>trace_field_line\<close> returns at least one and
  at most \<^verbatim>\<open>max_steps + 1\<close> points.
\<close>

theorem trace_length:
  "0 \<le> max_steps \<Longrightarrow>
     1 \<le> length (trace_field_line fps start mm max_steps) \<and>
     int (length (trace_field_line fps start mm max_steps)) \<le> max_steps + 1"
  using trace_loop_length [of "[Start start]" "nat max_steps" fps mm "position start"]
  unfolding trace_field_line_def by auto

theorem trace_length_witness:
  "(0::int) \<le> 3 \<and>
   1 \<le> length (trace_field_line
          [\<lparr>position = Vector 0 0 0, field = Vector 1 0 0, magnitude = 1\<rparr>]
          \<lparr>position = Vector 0 0 0, field = Vector 1 0 0, magnitude = 1\<rparr> 1 3) \<and>
   int (length (trace_field_line
          [\<lparr>position = Vector 0 0 0, field = Vector 1 0 0, magnitude = 1\<rparr>]
          \<lparr>position = Vector 0 0 0, field = Vector 1 0 0, magnitude = 1\<rparr> 1 3)) \<le> 3 + 1"
  using trace_length [of 3 "[\<lparr>position = Vector 0 0 0, field = Vector 1 0 0, magnitude = 1\<rparr>]"
      "\<lparr>position = Vector 0 0 0, field = Vector 1 0 0, magnitude = 1\<rparr>" 1]
  by simp

lemma trace_loop_appends:
  "\<exists>rest. trace_loop n fps mm cur points = points @ rest \<and>
          (\<forall>tp\<in>set rest. \<not> out_of_bounds (point_position tp))"
proof (induction n arbitrary: cur points)
  case 0
  show ?case by simp
next
  case (Suc n)
  show ?case
  proof (cases "interpolate_field fps cur")
    case None
    then show ?thesis by simp
  next
    case (Some fld)
    let ?next = "vec_add cur (vec_scale (normalized (field fld)) 0.05)"
    let ?pts = "points @ [Step ?next (magnitude fld)]"
    show ?thesis
    proof (cases "magnitude fld < mm * 0.000001 \<or> out_of_bounds ?next")
      case True
      with Some show ?thesis by (auto simp: Let_def)
    next
      case False
      with Some have run: "trace_loop (Suc n) fps mm cur points = trace_loop n fps mm ?next ?pts"
        by (simp add: Let_def)
      from Suc.IH [of ?next ?pts] obtain rest where
        rest: "trace_loop n fps mm ?next ?pts = ?pts @ rest"
          "\<forall>tp\<in>set rest. \<not> out_of_bounds (point_position tp)"
        by blast
      have "trace_loop (Suc n) fps mm cur points = points @ (Step ?next (magnitude fld) # rest)"
        using run rest(1) by simp
      moreover have "\<forall>tp\<in>set (Step ?next (magnitude fld) # rest). \<not> out_of_bounds (point_position tp)"
        using rest(2) False by simp
      ultimately show ?thesis by blast
    qed
  qed
qed

text \<open>
  Claim C6, as amended. The result of \<^verbatim>\<open>trace_field_line\<close> is the start point followed by
  points that all lie within the bound of 2 in every coordinate, and the loop ends at a
  step whose new position has a coordinate beyond the bound. The start point is returned
  as it is given.
\<close>

theorem trace_in_bounds_after_start:
  "(\<exists>rest. trace_field_line fps start mm max_steps = Start start # rest \<and>
       (\<forall>tp\<in>set rest. \<not> out_of_bounds (point_position tp))) \<and>
   (\<forall>n cur points fld.
       interpolate_field fps cur = Some fld \<and>
       out_of_bounds (vec_add cur (vec_scale (normalized (field fld)) 0.05)) \<longrightarrow>
       trace_loop (Suc n) fps mm cur points = points)"
proof
  from trace_loop_appends [of "nat max_steps" fps mm "position start" "[Start start]"]
  show "\<exists>rest. trace_field_line fps start mm max_steps = Start start # rest \<and>
       (\<forall>tp\<in>set rest. \<not> out_of_bounds (point_position tp))"
    by (simp add: trace_field_line_def)
next
  show "\<forall>n cur points fld.
       interpolate_field fps cur = Some fld \<and>
       out_of_bounds (vec_add cur (vec_scale (normalized (field fld)) 0.05)) \<longrightarrow>
       trace_loop (Suc n) fps mm cur points = points"
    by (simp add: Let_def)
qed

theorem trace_in_bounds_after_start_witness:
  "trace_field_line
     [\<lparr>position = Vector 1.95 0 0, field = Vector 1 0 0, magnitude = 1\<rparr>]
     \<lparr>position = Vector 1.95 0 0, field = Vector 1 0 0, magnitude = 1\<rparr> 1 5
   = [Start \<lparr>position = Vector 1.95 0 0, field = Vector 1 0 0, magnitude = 1\<rparr>,
      Step (Vector 2 0 0) 1] \<and>
   \<not> out_of_bounds (Vector 2 0 0) \<and>
   interpolate_field [\<lparr>position = Vector 1.95 0 0, field = Vector 1 0 0, magnitude = 1\<rparr>]
     (Vector 2 0 0)
   = Some \<lparr>position = Vector 1.95 0 0, field = Vector 1 0 0, magnitude = 1\<rparr> \<and>
   out_of_bounds (vec_add (Vector 2 0 0) (vec_scale (normalized (Vector 1 0 0)) 0.05)) \<and>
   trace_loop (Suc 0) [\<lparr>position = Vector 1.95 0 0, field = Vector 1 0 0, magnitude = 1\<rparr>] 1
     (Vector 2 0 0) [] = []"
proof -
  let ?s = "\<lparr>position = Vector 1.95 0 0, field = Vector 1 0 0, magnitude = 1\<rparr>"
  have run: "trace_field_line [?s] ?s 1 5 = [Start ?s, Step (Vector 2 0 0) 1]"
    by (simp add: trace_field_line_def interpolate_field_def Let_def normalized_def
        length_squared_def vec_add_def vec_scale_def vec_sub_def out_of_bounds_def
        eval_nat_numeral)
  have near: "interpolate_field [?s] (Vector 2 0 0) = Some ?s"
    by (simp add: interpolate_field_def)
  have out: "out_of_bounds (vec_add (Vector 2 0 0) (vec_scale (normalized (Vector 1 0 0)) 0.05))"
    by (simp add: normalized_def length_squared_def vec_add_def vec_scale_def
        out_of_bounds_def)
  note inst = trace_in_bounds_after_start [of "[?s]" ?s 1 5]
  from inst obtain rest where
    rest: "trace_field_line [?s] ?s 1 5 = Start ?s # rest"
      "\<forall>tp\<in>set rest. \<not> out_of_bounds (point_position tp)"
    by blast
  from run rest(1) have "rest = [Step (Vector 2 0 0) 1]" by simp
  with rest(2) have inside: "\<not> out_of_bounds (Vector 2 0 0)" by simp
  from inst have "interpolate_field [?s] (Vector 2 0 0) = Some ?s \<and>
       out_of_bounds (vec_add (Vector 2 0 0) (vec_scale (normalized (field ?s)) 0.05)) \<longrightarrow>
       trace_loop (Suc 0) [?s] 1 (Vector 2 0 0) [] = []"
    by blast
  with near out have "trace_loop (Suc 0) [?s] 1 (Vector 2 0 0) [] = []" by simp
  with run inside near out show ?thesis by simp
qed

text \<open>
  Claim C6 as stated fails: a start point at \<open>x = 3\<close> is returned, and it lies beyond the
  bound.
\<close>

theorem trace_start_out_of_bounds:
  "trace_field_line
     [\<lparr>position = Vector 3 0 0, field = Vector 1 0 0, magnitude = 1\<rparr>]
     \<lparr>position = Vector 3 0 0, field = Vector 1 0 0, magnitude = 1\<rparr> 1 1
   = [Start \<lparr>position = Vector 3 0 0, field = Vector 1 0 0, magnitude = 1\<rparr>] \<and>
   out_of_bounds (point_position
     (Start \<lparr>position = Vector 3 0 0, field = Vector 1 0 0, magnitude = 1\<rparr>))"
  by (simp add: trace_field_line_def interpolate_field_def Let_def normalized_def
      length_squared_def vec_add_def vec_scale_def vec_sub_def out_of_bounds_def)







section \<open>Colors\<close>




text \<open>
  Claim C10. \<^verbatim>\<open>direction_to_color\<close> of the zero vector is the opaque gray
  \<open>(0.5, 0.5, 0.5, 1)\<close>: the zero vector normalizes to itself.
\<close>

theorem direction_to_color_zero:
  "direction_to_color (Vector 0 0 0) = (0.5, 0.5, 0.5, 1.0)"
  by (simp add: direction_to_color_def normalized_def length_squared_def)

section \<open>Loading a JSON document\<close>












section \<open>Runs of the entry point\<close>





text \<open>
  Claim C3, as amended. When the file loads with no field points, \<^verbatim>\<open>main\<close> takes the
  maximum over the empty sequence without a guard: the run ends with the \<^verbatim>\<open>ValueError\<close>
  of \<^verbatim>\<open>max\<close>, after it has cleared the scene and printed the two counts, and builds
  nothing.
\<close>

theorem main_empty_dataset:
  assumes "(endswith (FILE_PATH cfg) ''.json'' \<and>
            load_field_data_json e (FILE_PATH cfg) = Inr ([], sources, metadata)) \<or>
           (\<not> endswith (FILE_PATH cfg) ''.json'' \<and> endswith (FILE_PATH cfg) ''.csv'' \<and>
            load_field_data_csv e (FILE_PATH cfg) = Inr ([], sources, metadata))"
  shows "main cfg e h =
           (Some ValueError,
            h\<lparr>printed := printed h @ [Rule, Title, Rule, Loading_data_from (FILE_PATH cfg),
                                      Loaded_field_points 0, Loaded_sources (length sources)],
              scene := object_delete (select_all (scene h))\<rparr>)"
  using assms
  by (auto simp: main_def Let_def py_print_def clear_scene_def find_max_magnitude_def)

theorem main_empty_dataset_witness:
  "endswith ''empty.json'' ''.json'' \<and>
   load_field_data_json example_env ''empty.json'' = Inr ([], [], PDict []) \<and>
   main (default_config\<lparr>FILE_PATH := ''empty.json''\<rparr>) example_env example_host =
     (Some ValueError,
      \<lparr>printed = [Rule, Title, Rule, Loading_data_from ''empty.json'',
                  Loaded_field_points 0, Loaded_sources 0],
       scene = \<lparr>objects = [], collections = [(''Collection'', [])], materials = [],
                camera = None, world_color = (0.05, 0.05, 0.05, 1)\<rparr>\<rparr>)"
proof -
  have a: "endswith ''empty.json'' ''.json''" by (simp add: endswith_def)
  have b: "load_field_data_json example_env ''empty.json'' = Inr ([], [], PDict [])"
    by (simp add: load_field_data_json_def example_env_def load_json_data_def and_then_def)
  have "(endswith (FILE_PATH (default_config\<lparr>FILE_PATH := ''empty.json''\<rparr>)) ''.json'' \<and>
         load_field_data_json example_env (FILE_PATH (default_config\<lparr>FILE_PATH := ''empty.json''\<rparr>))
           = Inr ([], [], PDict [])) \<or>
        (\<not> endswith (FILE_PATH (default_config\<lparr>FILE_PATH := ''empty.json''\<rparr>)) ''.json'' \<and>
         endswith (FILE_PATH (default_config\<lparr>FILE_PATH := ''empty.json''\<rparr>)) ''.csv'' \<and>
         load_field_data_csv example_env (FILE_PATH (default_config\<lparr>FILE_PATH := ''empty.json''\<rparr>))
           = Inr ([], [], PDict []))"
    using a b by simp
  from main_empty_dataset [OF this, of example_host] a b show ?thesis
    by (simp add: example_host_def object_delete_def select_all_def Let_def)
qed

text \<open>
  Claim C3 as stated fails: on the document with no entries the run ends with the
  \<^verbatim>\<open>ValueError\<close> that \<^verbatim>\<open>max\<close> raises, and the printed lines report no empty dataset.
\<close>

theorem main_empty_dataset_unguarded:
  "load_field_data_json example_env ''empty.json'' = Inr ([], [], PDict []) \<and>
   find_max_magnitude [] = Inl ValueError \<and>
   fst (main (default_config\<lparr>FILE_PATH := ''empty.json''\<rparr>) example_env example_host)
     = Some ValueError \<and>
   printed (snd (main (default_config\<lparr>FILE_PATH := ''empty.json''\<rparr>) example_env example_host))
     = [Rule, Title, Rule, Loading_data_from ''empty.json'',
        Loaded_field_points 0, Loaded_sources 0]"
  by (simp add: main_def Let_def py_print_def clear_scene_def endswith_def example_host_def
      find_max_magnitude_def load_field_data_json_def example_env_def load_json_data_def
      and_then_def)

text \<open>
  Claim C1 fails on the code. For a dataset that loads and has a maximum magnitude, the
  mode \<^verbatim>\<open>particles\<close> is no branch of \<^verbatim>\<open>main\<close>: the run prints that the mode is unknown
  and returns with the cleared scene, and no particle system is built.
\<close>

theorem main_particles_unknown_mode:
  assumes "VISUALIZATION_MODE cfg = ''particles''"
    and "(endswith (FILE_PATH cfg) ''.json'' \<and>
          load_field_data_json e (FILE_PATH cfg) = Inr (field_points, sources, metadata)) \<or>
         (\<not> endswith (FILE_PATH cfg) ''.json'' \<and> endswith (FILE_PATH cfg) ''.csv'' \<and>
          load_field_data_csv e (FILE_PATH cfg) = Inr (field_points, sources, metadata))"
    and "find_max_magnitude field_points = Inr (max_magnitude, samples)"
  shows "main cfg e h =
           (None,
            h\<lparr>printed := printed h @ [Rule, Title, Rule, Loading_data_from (FILE_PATH cfg),
                                      Loaded_field_points (length field_points),
                                      Loaded_sources (length sources),
                                      Max_field_magnitude max_magnitude,
                                      Unknown_visualization_mode ''particles''],
              scene := object_delete (select_all (scene h))\<rparr>)"
  using assms
  by (auto simp: main_def Let_def py_print_def clear_scene_def)

theorem main_particles_unknown_mode_witness:
  "main (default_config\<lparr>FILE_PATH := ''field.json'', VISUALIZATION_MODE := ''particles''\<rparr>)
     example_env example_host =
     (None,
      \<lparr>printed = [Rule, Title, Rule, Loading_data_from ''field.json'',
                  Loaded_field_points 2, Loaded_sources 0, Max_field_magnitude 2,
                  Unknown_visualization_mode ''particles''],
       scene = \<lparr>objects = [], collections = [(''Collection'', [])], materials = [],
                camera = None, world_color = (0.05, 0.05, 0.05, 1)\<rparr>\<rparr>)"
proof -
  let ?cfg = "default_config\<lparr>FILE_PATH := ''field.json'', VISUALIZATION_MODE := ''particles''\<rparr>"
  let ?fps = "[\<lparr>fp_position = Vector 0 0 0, fp_field = Vector 1 0 0, fp_magnitude = PNum 1\<rparr>,
           \<lparr>fp_position = Vector 1 0 0, fp_field = Vector 0 1 0, fp_magnitude = PNum 2\<rparr>]"
  have m: "VISUALIZATION_MODE ?cfg = ''particles''" by simp
  have l: "(endswith (FILE_PATH ?cfg) ''.json'' \<and>
          load_field_data_json example_env (FILE_PATH ?cfg) = Inr (?fps, [], PDict [])) \<or>
         (\<not> endswith (FILE_PATH ?cfg) ''.json'' \<and> endswith (FILE_PATH ?cfg) ''.csv'' \<and>
          load_field_data_csv example_env (FILE_PATH ?cfg) = Inr (?fps, [], PDict []))"
    by (simp add: endswith_def load_field_data_json_def example_env_def load_json_data_def
        example_document_def and_then_def load_point_def point_vector_def make_vector_def
        to_float_def)
  have f: "find_max_magnitude ?fps =
      Inr (2, [\<lparr>position = Vector 0 0 0, field = Vector 1 0 0, magnitude = 1\<rparr>,
               \<lparr>position = Vector 1 0 0, field = Vector 0 1 0, magnitude = 2\<rparr>])"
    by (simp add: find_max_magnitude_def)
  from main_particles_unknown_mode [OF m l f, of example_host] show ?thesis
    by (simp add: example_host_def object_delete_def select_all_def Let_def)
qed


end
